theory Spec2Isabelle
  imports
    Complex_Main
    "HOL-Library.AList"
    "HOL-Library.Sublist"
    "HOL-Library.Char_ord"
    "HOL-Library.List_Lexorder"
    "HOL-Library.Multiset"
begin

section \<open>Python values and exceptions\<close>

text \<open>
  The services work on JSON-like documents (request bodies, MongoDB documents). A value is
  \<open>None\<close>, a number, a string, a list or a dict; a dict is kept as an association list in
  insertion order, with \<open>AList.update\<close> for item assignment (an existing key keeps its
  place, a new key goes to the end) and \<open>map_of\<close> for lookup. Numbers are idealised as
  reals: \<open>int\<close> and \<open>float\<close> are not told apart, and infinities and NaN are left out.
\<close>

datatype pyval =
    PNone
  | PNum real
  | PStr string
  | PList "pyval list"
  | PDict "(string \<times> pyval) list"

datatype py_error = KeyError | TypeError | ValueError | ZeroDivisionError | AttributeError

type_synonym pydict = "(string \<times> pyval) list"

text \<open>Truthiness, as \<open>if x:\<close> tests it.\<close>

fun truthy :: "pyval \<Rightarrow> bool" where
  "truthy PNone = False"
| "truthy (PNum x) = (x \<noteq> 0)"
| "truthy (PStr s) = (s \<noteq> [])"
| "truthy (PList xs) = (xs \<noteq> [])"
| "truthy (PDict kvs) = (kvs \<noteq> [])"

text \<open>
  \<open>float(v)\<close>: a number converts, a string is parsed (\<open>ValueError\<close> when it is not a
  numeral), anything else is a \<open>TypeError\<close>. The parser of numerals is Python's own and is
  taken as the parameter \<open>parse\<close>.
\<close>

fun py_float :: "(string \<Rightarrow> real option) \<Rightarrow> pyval \<Rightarrow> py_error + real" where
  "py_float parse (PNum x) = Inr x"
| "py_float parse (PStr s) = (case parse s of Some x \<Rightarrow> Inr x | None \<Rightarrow> Inl ValueError)"
| "py_float parse PNone = Inl TypeError"
| "py_float parse (PList xs) = Inl TypeError"
| "py_float parse (PDict kvs) = Inl TypeError"

section \<open>portfolio\_service.py: the canonical holding\<close>

text \<open>
  The dataclass \<open>Security\<close>, with the types of its annotations. Time is a natural number
  (a clock reading); \<open>last_updated\<close> is \<open>Optional[datetime]\<close>.
\<close>

record Security =
  symbol :: string
  name :: string
  quantity :: real
  avg_price :: real
  current_price :: real
  market_value :: real
  pnl :: real
  pnl_percentage :: real
  security_type :: string
  isin :: "string option"
  source :: string
  last_updated :: "nat option"

text \<open>\<open>__post_init__\<close>: a missing \<open>last_updated\<close> becomes the time of construction.\<close>

definition post_init :: "nat \<Rightarrow> Security \<Rightarrow> Security" where
  "post_init now s = (if last_updated s = None then s\<lparr>last_updated := Some now\<rparr> else s)"

subsection \<open>The per-source converters\<close>

text \<open>
  A raw holding record as a collaborator supplies it. Each field may be absent (\<open>None\<close>
  here). The text fields are strings when present; a numeric field may hold any value, since
  the converter passes it through \<open>float\<close>.
\<close>

record raw_holding =
  raw_symbol :: "string option"
  raw_name :: "string option"
  raw_quantity :: "pyval option"
  raw_avg_price :: "pyval option"
  raw_current_price :: "pyval option"
  raw_market_value :: "pyval option"
  raw_pnl :: "pyval option"
  raw_pnl_percentage :: "pyval option"
  raw_security_type :: "string option"
  raw_isin :: "string option"

text \<open>\<open>item.get(key, default)\<close> on an optional field.\<close>

definition get_or :: "'a option \<Rightarrow> 'a \<Rightarrow> 'a" where
  "get_or field dflt = (case field of None \<Rightarrow> dflt | Some v \<Rightarrow> v)"

text \<open>\<open>float(item.get(key, 0))\<close> inside the converter's \<open>try\<close>: \<open>None\<close> stands for a raise.\<close>

definition float_field :: "(string \<Rightarrow> real option) \<Rightarrow> pyval option \<Rightarrow> real option" where
  "float_field parse field =
     (case py_float parse (get_or field (PNum 0)) of Inl e \<Rightarrow> None | Inr x \<Rightarrow> Some x)"

text \<open>
  The three converters have one body and differ in the source tag only. The arguments of
  \<open>Security(...)\<close> are evaluated in order; the first \<open>float\<close> that raises sends control to
  \<open>except Exception: return None\<close>.
\<close>

definition convert_with ::
  "string \<Rightarrow> (string \<Rightarrow> real option) \<Rightarrow> nat \<Rightarrow> raw_holding \<Rightarrow> Security option" where
  "convert_with tag parse now item =
     Option.bind (float_field parse (raw_quantity item)) (\<lambda>q.
     Option.bind (float_field parse (raw_avg_price item)) (\<lambda>a.
     Option.bind (float_field parse (raw_current_price item)) (\<lambda>c.
     Option.bind (float_field parse (raw_market_value item)) (\<lambda>m.
     Option.bind (float_field parse (raw_pnl item)) (\<lambda>p.
     Option.bind (float_field parse (raw_pnl_percentage item)) (\<lambda>pp.
       Some (post_init now
         \<lparr>symbol = get_or (raw_symbol item) '''',
          name = get_or (raw_name item) '''',
          quantity = q, avg_price = a, current_price = c,
          market_value = m, pnl = p, pnl_percentage = pp,
          security_type = get_or (raw_security_type item) ''STOCK'',
          isin = raw_isin item,
          source = tag,
          last_updated = None\<rparr>)))))))"

definition convert_fyers_to_security ::
  "(string \<Rightarrow> real option) \<Rightarrow> nat \<Rightarrow> raw_holding \<Rightarrow> Security option" where
  "convert_fyers_to_security = convert_with ''FYERS''"

definition convert_cas_to_security ::
  "(string \<Rightarrow> real option) \<Rightarrow> nat \<Rightarrow> raw_holding \<Rightarrow> Security option" where
  "convert_cas_to_security = convert_with ''CAS''"

definition convert_manual_to_security ::
  "(string \<Rightarrow> real option) \<Rightarrow> nat \<Rightarrow> raw_holding \<Rightarrow> Security option" where
  "convert_manual_to_security = convert_with ''MANUAL''"

subsection \<open>Deduplication and merge\<close>

text \<open>\<open>priority.get(source, 0)\<close> with \<open>priority = {'FYERS': 3, 'CAS': 2, 'MANUAL': 1}\<close>.\<close>

definition priority :: "string \<Rightarrow> nat" where
  "priority src =
     (if src = ''FYERS'' then 3 else if src = ''CAS'' then 2
      else if src = ''MANUAL'' then 1 else 0)"

text \<open>
  \<open>_merge_securities\<close>. A \<open>datetime\<close> is always truthy, so the test
  \<open>new.last_updated and existing.last_updated and new.last_updated > existing.last_updated\<close>
  holds when both are set and the new one is later.
\<close>

definition later :: "nat option \<Rightarrow> nat option \<Rightarrow> bool" where
  "later tn te = (case tn of None \<Rightarrow> False
                  | Some a \<Rightarrow> (case te of None \<Rightarrow> False | Some b \<Rightarrow> b < a))"

definition merge_securities :: "Security \<Rightarrow> Security \<Rightarrow> Security" where
  "merge_securities existing new =
     (if priority (source new) > priority (source existing) then new
      else if later (last_updated new) (last_updated existing) then new
      else existing)"

text \<open>The grouping key: \<open>security.isin if security.isin else security.symbol\<close>.\<close>

definition dedup_key :: "Security \<Rightarrow> string" where
  "dedup_key s = (case isin s of None \<Rightarrow> symbol s
                  | Some i \<Rightarrow> if i \<noteq> [] then i else symbol s)"

text \<open>One pass of the loop of \<open>_deduplicate_securities\<close> over the dict \<open>grouped\<close>.\<close>

definition dedup_step :: "(string \<times> Security) list \<Rightarrow> Security \<Rightarrow> (string \<times> Security) list" where
  "dedup_step grouped security =
     (case map_of grouped (dedup_key security) of
        Some existing \<Rightarrow>
          AList.update (dedup_key security) (merge_securities existing security) grouped
      | None \<Rightarrow> AList.update (dedup_key security) security grouped)"

text \<open>The dict \<open>grouped\<close> when the loop ends, and \<open>list(grouped.values())\<close>.\<close>

definition grouped_of :: "Security list \<Rightarrow> (string \<times> Security) list" where
  "grouped_of securities = foldl dedup_step [] securities"

definition deduplicate_securities :: "Security list \<Rightarrow> Security list" where
  "deduplicate_securities securities = map snd (grouped_of securities)"

text \<open>
  Comparing two members by the pair (source priority, last\_updated), priority first:
  \<open>outranks a b\<close> when the pair of \<open>a\<close> is strictly greater, \<open>same_rank\<close> when the pairs
  are equal.
\<close>

definition outranks :: "Security \<Rightarrow> Security \<Rightarrow> bool" where
  "outranks a b =
     (priority (source b) < priority (source a) \<or>
      (priority (source a) = priority (source b) \<and> later (last_updated a) (last_updated b)))"

definition same_rank :: "Security \<Rightarrow> Security \<Rightarrow> bool" where
  "same_rank a b =
     (priority (source a) = priority (source b) \<and> last_updated a = last_updated b)"

text \<open>
  Inputs on which priority and recency never pull apart: every member carries a
  timestamp (as \<open>__post_init__\<close> ensures), and no member has both a lower priority and a
  later timestamp than a member with the same key.
\<close>

definition conflict_free :: "Security list \<Rightarrow> bool" where
  "conflict_free xs =
     (\<forall>a \<in> set xs. last_updated a \<noteq> None \<and>
        (\<forall>b \<in> set xs. dedup_key a = dedup_key b \<longrightarrow>
           \<not> (priority (source a) < priority (source b) \<and>
              later (last_updated a) (last_updated b))))"

text \<open>Inputs in which no two different members of a group tie on both components.\<close>

definition tie_free :: "Security list \<Rightarrow> bool" where
  "tie_free xs =
     (\<forall>a \<in> set xs. \<forall>b \<in> set xs.
        dedup_key a = dedup_key b \<and> same_rank a b \<longrightarrow> a = b)"

text \<open>
  The identity key in the words of the specification: the isin when it is non-empty,
  otherwise the upper-cased symbol (\<open>str.upper\<close> on ASCII letters).
\<close>

definition upper_char :: "char \<Rightarrow> char" where
  "upper_char c =
     (if 97 \<le> (of_char c :: nat) \<and> (of_char c :: nat) \<le> 122
      then char_of ((of_char c :: nat) - 32) else c)"

definition spec_identity_key :: "Security \<Rightarrow> string" where
  "spec_identity_key s = (case isin s of None \<Rightarrow> map upper_char (symbol s)
                          | Some i \<Rightarrow> if i \<noteq> [] then i else map upper_char (symbol s))"

text \<open>
  The invariant of the loop: the keys of \<open>grouped\<close> are distinct, and every entry is
  stored under its own grouping key.
\<close>

definition keyed :: "(string \<times> Security) list \<Rightarrow> bool" where
  "keyed g = (distinct (map fst g) \<and> list_all (\<lambda>p. dedup_key (snd p) = fst p) g)"

text \<open>What one group leaves in \<open>grouped\<close>: the running result of the merges.\<close>

definition absorb :: "Security option \<Rightarrow> Security \<Rightarrow> Security option" where
  "absorb cur s = Some (case cur of None \<Rightarrow> s | Some e \<Rightarrow> merge_securities e s)"

text \<open>A holding with every numeric field but the quantity zero, for concrete inputs.\<close>

definition holding_of :: "string \<Rightarrow> string option \<Rightarrow> string \<Rightarrow> nat \<Rightarrow> real \<Rightarrow> Security" where
  "holding_of sy i src t q =
     \<lparr>symbol = sy, name = '''', quantity = q, avg_price = 0, current_price = 0,
      market_value = 0, pnl = 0, pnl_percentage = 0, security_type = ''STOCK'',
      isin = i, source = src, last_updated = Some t\<rparr>"

text \<open>Concrete holdings used in the examples below.\<close>

definition ex_manual :: Security where
  "ex_manual = holding_of ''INFY'' (Some ''INE009A01021'') ''MANUAL'' 1 10"

definition ex_broker :: Security where
  "ex_broker = holding_of ''INFY'' (Some ''INE009A01021'') ''FYERS'' 2 12"

definition ex_other :: Security where
  "ex_other = holding_of ''TCS'' None ''CAS'' 5 3"

definition tie_a :: Security where
  "tie_a = holding_of ''INFY'' (Some ''INE009A01021'') ''MANUAL'' 1 10"

definition tie_b :: Security where
  "tie_b = holding_of ''INFY'' (Some ''INE009A01021'') ''MANUAL'' 1 25"

definition ex_broker_old :: Security where
  "ex_broker_old = holding_of ''INFY'' (Some ''INE009A01021'') ''FYERS'' 1 12"

definition ex_manual_new :: Security where
  "ex_manual_new = holding_of ''INFY'' (Some ''INE009A01021'') ''MANUAL'' 2 40"

subsection \<open>Normalization: what the specification asks, and what a conversion builds\<close>

text \<open>
  The failure condition in the words of the specification: the record provides neither
  symbol nor isin, or does not provide quantity.
\<close>

definition spec_missing_field :: "raw_holding \<Rightarrow> bool" where
  "spec_missing_field item =
     ((raw_symbol item = None \<and> raw_isin item = None) \<or> raw_quantity item = None)"

text \<open>The values of the numeric fields that the record provides, in the order of the source.\<close>

definition provided_numbers :: "raw_holding \<Rightarrow> pyval list" where
  "provided_numbers item =
     List.map_filter (\<lambda>f. f)
       [raw_quantity item, raw_avg_price item, raw_current_price item,
        raw_market_value item, raw_pnl item, raw_pnl_percentage item]"

text \<open>\<open>float\<close> raises on some numeric field that the record provides.\<close>

definition float_rejects :: "(string \<Rightarrow> real option) \<Rightarrow> raw_holding \<Rightarrow> bool" where
  "float_rejects parse item =
     (\<exists>v \<in> set (provided_numbers item). \<exists>e. py_float parse v = Inl e)"

text \<open>A numeric field of the result: 0 when absent, else what \<open>float\<close> returns.\<close>

definition number_of :: "(string \<Rightarrow> real option) \<Rightarrow> pyval option \<Rightarrow> real" where
  "number_of parse field =
     (case field of None \<Rightarrow> 0 | Some v \<Rightarrow> projr (py_float parse v))"

definition normalized :: "string \<Rightarrow> (string \<Rightarrow> real option) \<Rightarrow> nat \<Rightarrow> raw_holding \<Rightarrow> Security" where
  "normalized tag parse now item =
     \<lparr>symbol = (case raw_symbol item of None \<Rightarrow> '''' | Some s \<Rightarrow> s),
      name = (case raw_name item of None \<Rightarrow> '''' | Some s \<Rightarrow> s),
      quantity = number_of parse (raw_quantity item),
      avg_price = number_of parse (raw_avg_price item),
      current_price = number_of parse (raw_current_price item),
      market_value = number_of parse (raw_market_value item),
      pnl = number_of parse (raw_pnl item),
      pnl_percentage = number_of parse (raw_pnl_percentage item),
      security_type = (case raw_security_type item of None \<Rightarrow> ''STOCK'' | Some s \<Rightarrow> s),
      isin = raw_isin item,
      source = tag,
      last_updated = Some now\<rparr>"

text \<open>Two raw records: the empty one, and one whose \<open>avg_price\<close> is \<open>null\<close>.\<close>

definition raw_empty :: raw_holding where
  "raw_empty =
     \<lparr>raw_symbol = None, raw_name = None, raw_quantity = None, raw_avg_price = None,
      raw_current_price = None, raw_market_value = None, raw_pnl = None,
      raw_pnl_percentage = None, raw_security_type = None, raw_isin = None\<rparr>"

definition raw_null_price :: raw_holding where
  "raw_null_price =
     \<lparr>raw_symbol = Some ''TCS'', raw_name = None, raw_quantity = Some (PNum 5),
      raw_avg_price = Some PNone, raw_current_price = None, raw_market_value = None,
      raw_pnl = None, raw_pnl_percentage = None, raw_security_type = None,
      raw_isin = None\<rparr>"

section \<open>portfolio\_refresh\_service.py\<close>

text \<open>
  A holding is a dict of the stored portfolio document. The document itself is a record of
  the fields that \<open>_refresh_portfolio_prices\<close> writes; \<open>doc_holdings\<close> is
  \<open>portfolio.get('holdings', [])\<close>. A stored document is never an empty dict (it has its
  \<open>_id\<close>), so \<open>if portfolio:\<close> tests that \<open>find_one\<close> returned one. The collection
  \<open>portfolios\<close> is an association list keyed by \<open>user_id\<close>.
\<close>

record portfolio_doc =
  doc_holdings :: "pydict list"
  doc_total_value :: real
  doc_total_pnl :: real
  doc_last_refreshed :: string
  doc_refresh_type :: string

type_synonym portfolios = "(string \<times> portfolio_doc) list"

text \<open>
  What the service does not own: the price provider (\<open>_get_current_price\<close> catches its own
  exceptions and returns a float or \<open>None\<close>), the clock, and whether a call to the database
  raises.
\<close>

record env =
  price_of :: "pyval \<Rightarrow> real option"
  clock :: string
  find_raises :: bool
  find_one_raises :: "string \<Rightarrow> bool"
  update_one_raises :: "string \<Rightarrow> bool"

text \<open>
  \<open>holding[key]\<close> used as an operand of float arithmetic: \<open>KeyError\<close> when the key is
  missing, \<open>TypeError\<close> when the value is not a number.
\<close>

fun as_number :: "pyval \<Rightarrow> py_error + real" where
  "as_number (PNum x) = Inr x"
| "as_number PNone = Inl TypeError"
| "as_number (PStr s) = Inl TypeError"
| "as_number (PList xs) = Inl TypeError"
| "as_number (PDict kvs) = Inl TypeError"

definition item_number :: "pydict \<Rightarrow> string \<Rightarrow> py_error + real" where
  "item_number h key =
     (case map_of h key of None \<Rightarrow> Inl KeyError | Some v \<Rightarrow> as_number v)"

text \<open>\<open>holding.get(key, 0)\<close> added to a running total.\<close>

definition get_number :: "pydict \<Rightarrow> string \<Rightarrow> py_error + real" where
  "get_number h key = (case map_of h key of None \<Rightarrow> Inr 0 | Some v \<Rightarrow> as_number v)"

text \<open>
  The five assignments of the branch \<open>if current_price:\<close>, in order. The dict is changed
  in place, so a raise leaves the assignments before it in effect: the result is the dict
  as it stands, with the exception if there was one.
\<close>

definition reprice :: "string \<Rightarrow> real \<Rightarrow> pydict \<Rightarrow> pydict \<times> py_error option" where
  "reprice now p h0 =
     (let h1 = AList.update ''current_price'' (PNum p) h0 in
      case item_number h1 ''quantity'' of
        Inl e \<Rightarrow> (h1, Some e)
      | Inr q \<Rightarrow>
          (let h2 = AList.update ''current_value'' (PNum (q * p)) h1 in
           case item_number h2 ''avg_price'' of
             Inl e \<Rightarrow> (h2, Some e)
           | Inr a \<Rightarrow>
               (let h3 = AList.update ''total_pnl'' (PNum (q * p - q * a)) h2 in
                if 0 < a \<and> q * a = 0 then (h3, Some ZeroDivisionError)
                else
                  (let pct = (if 0 < a then (q * p - q * a) / (q * a) * 100 else 0);
                       h4 = AList.update ''pnl_percentage'' (PNum pct) h3;
                       h5 = AList.update ''last_updated'' (PStr now) h4
                   in (h5, None)))))"

text \<open>The accumulators of the loop: \<open>updated_holdings\<close>, \<open>total_value\<close>, \<open>total_pnl\<close>.\<close>

type_synonym totals = "pydict list \<times> real \<times> real"

text \<open>
  Keeping a holding as it is: \<open>updated_holdings.append(holding)\<close>, then the two additions
  with \<open>holding.get(key, 0)\<close>. An addition raises when the stored value is not a number;
  the accumulators then stay as far as they got.
\<close>

definition keep_existing :: "pydict \<Rightarrow> totals \<Rightarrow> (py_error \<times> totals) + totals" where
  "keep_existing h acc =
     (case acc of (upd, tv, tp) \<Rightarrow>
        (case get_number h ''current_value'' of
           Inl e \<Rightarrow> Inl (e, (upd @ [h], tv, tp))
         | Inr cv \<Rightarrow>
             (case get_number h ''total_pnl'' of
                Inl e \<Rightarrow> Inl (e, (upd @ [h], tv + cv, tp))
              | Inr pl \<Rightarrow> Inr (upd @ [h], tv + cv, tp + pl))))"

text \<open>
  The body of the inner \<open>try\<close> for one holding: either the new accumulators, or the
  exception together with the holding and the accumulators as the raise left them. A price
  of \<open>None\<close> or 0 is falsy.
\<close>

definition try_holding ::
  "env \<Rightarrow> pydict \<Rightarrow> totals \<Rightarrow> (py_error \<times> pydict \<times> totals) + totals" where
  "try_holding e h acc =
     (case map_of h ''symbol'' of
        None \<Rightarrow> Inl (KeyError, h, acc)
      | Some sy \<Rightarrow>
          (case price_of e sy of
             None \<Rightarrow>
               (case keep_existing h acc of
                  Inl (err, acc') \<Rightarrow> Inl (err, h, acc') | Inr acc' \<Rightarrow> Inr acc')
           | Some p \<Rightarrow>
               if p = 0 then
                 (case keep_existing h acc of
                    Inl (err, acc') \<Rightarrow> Inl (err, h, acc') | Inr acc' \<Rightarrow> Inr acc')
               else
                 (case reprice (clock e) p h of
                    (h', Some err) \<Rightarrow> Inl (err, h', acc)
                  | (h', None) \<Rightarrow>
                      (case acc of (upd, tv, tp) \<Rightarrow>
                         (case item_number h' ''current_value'' of
                            Inl err \<Rightarrow> Inl (err, h', acc)
                          | Inr cv \<Rightarrow>
                              (case item_number h' ''total_pnl'' of
                                 Inl err \<Rightarrow> Inl (err, h', (upd, tv + cv, tp))
                               | Inr pl \<Rightarrow> Inr (upd @ [h'], tv + cv, tp + pl)))))))"

text \<open>
  One pass of the loop: the \<open>try\<close> body, and on an exception the handler, which keeps the
  holding. An exception raised inside the handler leaves the loop.
\<close>

definition refresh_holding :: "env \<Rightarrow> pydict \<Rightarrow> totals \<Rightarrow> py_error + totals" where
  "refresh_holding e h acc =
     (case try_holding e h acc of
        Inr acc' \<Rightarrow> Inr acc'
      | Inl (err, h', acc') \<Rightarrow>
          (case keep_existing h' acc' of
             Inl (err', acc'') \<Rightarrow> Inl err' | Inr acc'' \<Rightarrow> Inr acc''))"

fun refresh_holdings :: "env \<Rightarrow> pydict list \<Rightarrow> totals \<Rightarrow> py_error + totals" where
  "refresh_holdings e [] acc = Inr acc"
| "refresh_holdings e (h # hs) acc =
     (case refresh_holding e h acc of
        Inl err \<Rightarrow> Inl err
      | Inr acc' \<Rightarrow> refresh_holdings e hs acc')"

text \<open>
  \<open>_update_portfolio\<close>: an upsert keyed by the user id; an exception of the database call
  is logged and swallowed, and nothing is written.
\<close>

definition update_portfolio :: "env \<Rightarrow> portfolios \<Rightarrow> string \<Rightarrow> portfolio_doc \<Rightarrow> portfolios" where
  "update_portfolio e db user_id doc =
     (if update_one_raises e user_id then db else AList.update user_id doc db)"

text \<open>The result dict: \<open>{'success': True, ...}\<close> or \<open>{'error': ...}\<close>.\<close>

datatype refresh_result =
    Refreshed nat real real string
  | RefreshError py_error


definition updated_portfolio :: "env \<Rightarrow> totals \<Rightarrow> bool \<Rightarrow> portfolio_doc" where
  "updated_portfolio e acc manual =
     (case acc of (upd, tv, tp) \<Rightarrow>
        \<lparr>doc_holdings = upd, doc_total_value = tv, doc_total_pnl = tp,
         doc_last_refreshed = clock e,
         doc_refresh_type = (if manual then ''manual'' else ''automatic'')\<rparr>)"

definition refresh_portfolio_prices ::
  "env \<Rightarrow> portfolios \<Rightarrow> string \<Rightarrow> portfolio_doc \<Rightarrow> bool \<Rightarrow> refresh_result \<times> portfolios" where
  "refresh_portfolio_prices e db user_id portfolio manual =
     (case refresh_holdings e (doc_holdings portfolio) ([], 0, 0) of
        Inl err \<Rightarrow> (RefreshError err, db)
      | Inr acc \<Rightarrow>
          (case acc of (upd, tv, tp) \<Rightarrow>
             (Refreshed (length upd) tv tp (clock e),
              update_portfolio e db user_id (updated_portfolio e acc manual))))"

text \<open>The two reads; each catches the exception of its database call.\<close>

definition get_user_portfolio :: "env \<Rightarrow> portfolios \<Rightarrow> string \<Rightarrow> portfolio_doc option" where
  "get_user_portfolio e db user_id =
     (if find_one_raises e user_id then None else map_of db user_id)"

definition get_all_users_with_portfolios :: "env \<Rightarrow> portfolios \<Rightarrow> string list" where
  "get_all_users_with_portfolios e db = (if find_raises e then [] else map fst db)"

text \<open>
  \<open>refresh_all_portfolios\<close>. The \<open>except\<close> branch of the loop body is never entered: the
  calls inside the \<open>try\<close> catch their own exceptions.
\<close>

record refresh_results =
  total_users :: nat
  successful :: nat
  failed :: nat
  errors :: "(string \<times> py_error) list"

fun refresh_users ::
  "env \<Rightarrow> string list \<Rightarrow> portfolios \<times> refresh_results \<Rightarrow> portfolios \<times> refresh_results" where
  "refresh_users e [] st = st"
| "refresh_users e (u # us) (db, r) =
     (case get_user_portfolio e db u of
        None \<Rightarrow> refresh_users e us (db, r)
      | Some portfolio \<Rightarrow>
          (case refresh_portfolio_prices e db u portfolio False of
             (RefreshError err, db') \<Rightarrow>
               refresh_users e us
                 (db', r\<lparr>failed := failed r + 1, errors := errors r @ [(u, err)]\<rparr>)
           | (Refreshed n tv tp t, db') \<Rightarrow>
               refresh_users e us (db', r\<lparr>successful := successful r + 1\<rparr>)))"

definition refresh_all_portfolios :: "env \<Rightarrow> portfolios \<Rightarrow> portfolios \<times> refresh_results" where
  "refresh_all_portfolios e db =
     refresh_users e (get_all_users_with_portfolios e db)
       (db, \<lparr>total_users = length (get_all_users_with_portfolios e db),
             successful = 0, failed = 0, errors = []\<rparr>)"



text \<open>Concrete holdings, documents and environments used in the examples below.\<close>

definition sold_out :: pydict where
  "sold_out =
     [(''symbol'', PStr ''INFY''), (''quantity'', PNum 0), (''avg_price'', PNum 100),
      (''current_price'', PNum 90), (''current_value'', PNum 450),
      (''total_pnl'', PNum (- 50)), (''pnl_percentage'', PNum (- 10)),
      (''last_updated'', PStr ''t0'')]"

definition sold_out_after :: pydict where
  "sold_out_after =
     [(''symbol'', PStr ''INFY''), (''quantity'', PNum 0), (''avg_price'', PNum 100),
      (''current_price'', PNum 120), (''current_value'', PNum 0),
      (''total_pnl'', PNum 0), (''pnl_percentage'', PNum (- 10)),
      (''last_updated'', PStr ''t0'')]"

definition held :: pydict where
  "held =
     [(''symbol'', PStr ''TCS''), (''quantity'', PNum 2), (''avg_price'', PNum 100),
      (''current_price'', PNum 110), (''current_value'', PNum 220),
      (''total_pnl'', PNum 20), (''pnl_percentage'', PNum 10),
      (''last_updated'', PStr ''t0'')]"


definition unpriced :: pydict where
  "unpriced =
     [(''symbol'', PStr ''XYZ''), (''quantity'', PNum 3), (''avg_price'', PNum 10),
      (''current_price'', PNum 11), (''current_value'', PNum 33),
      (''total_pnl'', PNum 3), (''pnl_percentage'', PNum 10),
      (''last_updated'', PStr ''t0'')]"

text \<open>Every symbol but \<open>XYZ\<close> is priced at 120; no database call raises.\<close>

definition env_up :: env where
  "env_up =
     \<lparr>price_of = (\<lambda>sy. if sy = PStr ''XYZ'' then None else Some 120),
      clock = ''t1'', find_raises = False,
      find_one_raises = (\<lambda>u. False), update_one_raises = (\<lambda>u. False)\<rparr>"


text \<open>The same as \<open>env_up\<close>, with the lookup of user \<open>u2\<close> raising.\<close>

definition env_no_read :: env where
  "env_no_read = env_up\<lparr>find_one_raises := (\<lambda>u. u = ''u2'')\<rparr>"

definition doc_of :: "pydict list \<Rightarrow> portfolio_doc" where
  "doc_of hs =
     \<lparr>doc_holdings = hs, doc_total_value = 0, doc_total_pnl = 0,
      doc_last_refreshed = ''t0'', doc_refresh_type = ''automatic''\<rparr>"

text \<open>The enumerated users whose lookup returns a document.\<close>

definition found :: "env \<Rightarrow> portfolios \<Rightarrow> string list \<Rightarrow> string list" where
  "found e db us = filter (\<lambda>u. get_user_portfolio e db u \<noteq> None) us"

section \<open>screening\_service.py\<close>

subsection \<open>Comparison and membership of Python values\<close>

text \<open>
  \<open>a < b\<close>: numbers by value, strings and lists lexicographically, a \<open>TypeError\<close> for any
  other pair. Two lists are compared at the first position where they differ. \<open>a > b\<close> is
  \<open>b < a\<close>. Equality of values is equality of the terms (for two dicts this takes the
  order of the keys into account, which Python does not).
\<close>

fun py_lt :: "pyval \<Rightarrow> pyval \<Rightarrow> py_error + bool"
  and py_lt_list :: "pyval list \<Rightarrow> pyval list \<Rightarrow> py_error + bool" where
  "py_lt (PNum a) (PNum b) = Inr (a < b)"
| "py_lt (PStr a) (PStr b) = Inr (a < b)"
| "py_lt (PList a) (PList b) = py_lt_list a b"
| "py_lt _ _ = Inl TypeError"
| "py_lt_list [] [] = Inr False"
| "py_lt_list [] (y # ys) = Inr True"
| "py_lt_list (x # xs) [] = Inr False"
| "py_lt_list (x # xs) (y # ys) = (if x = y then py_lt_list xs ys else py_lt x y)"

text \<open>
  \<open>v in c\<close>: an element of a list, a substring of a string, a key of a dict; a
  \<open>TypeError\<close> when \<open>c\<close> is no container, when a non-string is sought in a string, and when
  an unhashable value is sought in a dict.
\<close>

fun py_in :: "pyval \<Rightarrow> pyval \<Rightarrow> py_error + bool" where
  "py_in v (PList xs) = Inr (v \<in> set xs)"
| "py_in (PStr s) (PStr t) = Inr (sublist s t)"
| "py_in v (PStr t) = Inl TypeError"
| "py_in (PStr s) (PDict kvs) = Inr (s \<in> set (map fst kvs))"
| "py_in (PNum x) (PDict kvs) = Inr False"
| "py_in PNone (PDict kvs) = Inr False"
| "py_in (PList xs) (PDict kvs) = Inl TypeError"
| "py_in (PDict d) (PDict kvs) = Inl TypeError"
| "py_in v PNone = Inl TypeError"
| "py_in v (PNum x) = Inl TypeError"

text \<open>\<open>value[key]\<close> with a string key.\<close>

fun py_getitem :: "pyval \<Rightarrow> string \<Rightarrow> py_error + pyval" where
  "py_getitem (PDict kvs) key = (case map_of kvs key of None \<Rightarrow> Inl KeyError | Some v \<Rightarrow> Inr v)"
| "py_getitem (PStr s) key = Inl TypeError"
| "py_getitem (PList xs) key = Inl TypeError"
| "py_getitem (PNum x) key = Inl TypeError"
| "py_getitem PNone key = Inl TypeError"

text \<open>\<open>field.split('.')\<close>.\<close>

fun split_dot :: "string \<Rightarrow> string list" where
  "split_dot [] = [[]]"
| "split_dot (c # cs) =
     (if c = CHR ''.'' then [] # split_dot cs
      else (case split_dot cs of [] \<Rightarrow> [[c]] | w # ws \<Rightarrow> (c # w) # ws))"

subsection \<open>The evaluator\<close>

text \<open>
  The first loop of \<open>_check_field_condition\<close>: \<open>Inr None\<close> is the \<open>return False\<close> for a
  missing key, \<open>Inl\<close> an exception.
\<close>

fun navigate :: "pyval \<Rightarrow> string list \<Rightarrow> py_error + pyval option" where
  "navigate v [] = Inr (Some v)"
| "navigate v (key # keys) =
     (case py_in (PStr key) v of
        Inl e \<Rightarrow> Inl e
      | Inr present \<Rightarrow>
          if present then
            (case py_getitem v key of Inl e \<Rightarrow> Inl e | Inr v' \<Rightarrow> navigate v' keys)
          else Inr None)"

text \<open>
  The second loop, over \<open>condition.items()\<close>: \<open>Inr False\<close> is a \<open>return False\<close>, \<open>Inr True\<close>
  the end of the loop. An operator that is none of the four is passed over.
\<close>

fun check_ops :: "pyval \<Rightarrow> pydict \<Rightarrow> py_error + bool" where
  "check_ops v [] = Inr True"
| "check_ops v ((operator, threshold) # rest) =
     (if operator = ''$gte'' then
        (case py_lt v threshold of
           Inl e \<Rightarrow> Inl e
         | Inr b \<Rightarrow> if b then Inr False else check_ops v rest)
      else if operator = ''$lte'' then
        (case py_lt threshold v of
           Inl e \<Rightarrow> Inl e
         | Inr b \<Rightarrow> if b then Inr False else check_ops v rest)
      else if operator = ''$in'' then
        (case py_in v threshold of
           Inl e \<Rightarrow> Inl e
         | Inr b \<Rightarrow> if \<not> b then Inr False else check_ops v rest)
      else if operator = ''$nin'' then
        (case py_in v threshold of
           Inl e \<Rightarrow> Inl e
         | Inr b \<Rightarrow> if b then Inr False else check_ops v rest)
      else check_ops v rest)"

text \<open>\<open>_check_field_condition\<close>: any exception is caught and gives \<open>False\<close>.\<close>

definition caught :: "py_error + bool \<Rightarrow> bool" where
  "caught r = (case r of Inl e \<Rightarrow> False | Inr b \<Rightarrow> b)"

definition check_field_condition :: "pydict \<Rightarrow> string \<Rightarrow> pydict \<Rightarrow> bool" where
  "check_field_condition item field condition =
     (case navigate (PDict item) (split_dot field) of
        Inl e \<Rightarrow> False
      | Inr None \<Rightarrow> False
      | Inr (Some v) \<Rightarrow> caught (check_ops v condition))"

text \<open>A query: field path to condition dict, in insertion order.\<close>

type_synonym query = "(string \<times> pydict) list"

fun apply_stock_filters :: "pydict \<Rightarrow> query \<Rightarrow> bool" where
  "apply_stock_filters stock [] = True"
| "apply_stock_filters stock ((field, condition) # rest) =
     (if \<not> check_field_condition stock field condition then False
      else apply_stock_filters stock rest)"

text \<open>\<open>_execute_screening\<close> over a catalog (the source uses its mock catalog).\<close>

definition execute_screening :: "pydict list \<Rightarrow> query \<Rightarrow> pydict list" where
  "execute_screening catalog query = filter (\<lambda>stock. apply_stock_filters stock query) catalog"

subsection \<open>The query adapter\<close>

text \<open>\<open>if key in filters: query[path] = {'$gte': filters[key]}\<close>.\<close>

definition put_min :: "pydict \<Rightarrow> string \<Rightarrow> string \<Rightarrow> query \<Rightarrow> query" where
  "put_min filters key path query =
     (case map_of filters key of
        None \<Rightarrow> query
      | Some v \<Rightarrow> AList.update path [(''$gte'', v)] query)"

text \<open>
  \<open>if key in filters:\<close> add \<open>'$lte'\<close> to the condition of the path when the query
  already has one, else \<open>query[path] = {'$lte': filters[key]}\<close>.
\<close>

definition put_max :: "pydict \<Rightarrow> string \<Rightarrow> string \<Rightarrow> query \<Rightarrow> query" where
  "put_max filters key path query =
     (case map_of filters key of
        None \<Rightarrow> query
      | Some v \<Rightarrow>
          (case map_of query path of
             Some condition \<Rightarrow> AList.update path (AList.update ''$lte'' v condition) query
           | None \<Rightarrow> AList.update path [(''$lte'', v)] query))"

text \<open>\<open>if key in filters and filters[key]: query[path] = {operator: filters[key]}\<close>.\<close>

definition put_list :: "pydict \<Rightarrow> string \<Rightarrow> string \<Rightarrow> string \<Rightarrow> query \<Rightarrow> query" where
  "put_list filters key path operator query =
     (case map_of filters key of
        None \<Rightarrow> query
      | Some v \<Rightarrow> if truthy v then AList.update path [(operator, v)] query else query)"

definition build_screening_query :: "pydict \<Rightarrow> query" where
  "build_screening_query filters =
     (let q1 = put_min filters ''pe_ratio_min'' ''fundamental_data.pe_ratio'' [];
          q2 = put_max filters ''pe_ratio_max'' ''fundamental_data.pe_ratio'' q1;
          q3 = put_min filters ''pb_ratio_min'' ''fundamental_data.pb_ratio'' q2;
          q4 = put_max filters ''pb_ratio_max'' ''fundamental_data.pb_ratio'' q3;
          q5 = put_min filters ''roe_min'' ''fundamental_data.roe'' q4;
          q6 = put_max filters ''roe_max'' ''fundamental_data.roe'' q5;
          q7 = put_min filters ''roce_min'' ''fundamental_data.roce'' q6;
          q8 = put_min filters ''market_cap_min'' ''basic_info.market_cap'' q7;
          q9 = put_max filters ''market_cap_max'' ''basic_info.market_cap'' q8;
          q10 = put_min filters ''price_min'' ''price_data.current_price'' q9;
          q11 = put_max filters ''price_max'' ''price_data.current_price'' q10;
          q12 = put_list filters ''sectors'' ''basic_info.sector'' ''$in'' q11;
          q13 = put_list filters ''exclude_sectors'' ''basic_info.sector'' ''$nin'' q12
      in q13)"

subsection \<open>Matching in the words of the specification\<close>

text \<open>
  The value at a dot-separated path: present only when every step but the last leads to a
  record that has the next key.
\<close>

fun resolve_path :: "pyval \<Rightarrow> string list \<Rightarrow> pyval option" where
  "resolve_path v [] = Some v"
| "resolve_path (PDict kvs) (key # keys) =
     (case map_of kvs key of None \<Rightarrow> None | Some v \<Rightarrow> resolve_path v keys)"
| "resolve_path (PStr s) (key # keys) = None"
| "resolve_path (PList xs) (key # keys) = None"
| "resolve_path (PNum x) (key # keys) = None"
| "resolve_path PNone (key # keys) = None"

definition path_value :: "pydict \<Rightarrow> string \<Rightarrow> pyval option" where
  "path_value item field = resolve_path (PDict item) (split_dot field)"

text \<open>
  \<open>at_least v t\<close>: \<open>v \<ge> t\<close> for two numbers, two strings or two lists; values that cannot
  be compared satisfy nothing.
\<close>

fun at_least :: "pyval \<Rightarrow> pyval \<Rightarrow> bool" where
  "at_least (PNum a) (PNum b) = (b \<le> a)"
| "at_least (PStr a) (PStr b) = (b \<le> a)"
| "at_least (PList a) (PList b) = (py_lt_list a b = Inr False)"
| "at_least _ _ = False"

definition op_holds :: "string \<Rightarrow> pyval \<Rightarrow> pyval \<Rightarrow> bool" where
  "op_holds operator v threshold =
     (if operator = ''$gte'' then at_least v threshold
      else if operator = ''$lte'' then at_least threshold v
      else if operator = ''$in'' then py_in v threshold = Inr True
      else if operator = ''$nin'' then py_in v threshold = Inr False
      else True)"

text \<open>A record satisfies a path: the path is present and every condition on it holds.\<close>

definition path_satisfied :: "pydict \<Rightarrow> string \<Rightarrow> pydict \<Rightarrow> bool" where
  "path_satisfied item field condition =
     (case path_value item field of
        None \<Rightarrow> False
      | Some v \<Rightarrow> list_all (\<lambda>c. op_holds (fst c) v (snd c)) condition)"

definition matches :: "pydict \<Rightarrow> query \<Rightarrow> bool" where
  "matches item query = list_all (\<lambda>fc. path_satisfied item (fst fc) (snd fc)) query"

text \<open>The mock catalog of the source, and a request with both sector filters.\<close>

definition mock_stocks :: "pydict list" where
  "mock_stocks =
     [[(''symbol'', PStr ''RELIANCE''),
       (''basic_info'', PDict [(''name'', PStr ''Reliance Industries''),
          (''sector'', PStr ''Oil & Gas''), (''market_cap'', PNum 1500000000000)]),
       (''price_data'', PDict [(''current_price'', PNum (5001 / 2))]),
       (''fundamental_data'', PDict [(''pe_ratio'', PNum (37 / 2)),
          (''pb_ratio'', PNum (21 / 10)), (''roe'', PNum (25 / 2)),
          (''roce'', PNum (76 / 5))])],
      [(''symbol'', PStr ''TCS''),
       (''basic_info'', PDict [(''name'', PStr ''Tata Consultancy Services''),
          (''sector'', PStr ''Technology''), (''market_cap'', PNum 1200000000000)]),
       (''price_data'', PDict [(''current_price'', PNum (15203 / 4))]),
       (''fundamental_data'', PDict [(''pe_ratio'', PNum (126 / 5)),
          (''pb_ratio'', PNum (17 / 2)), (''roe'', PNum (179 / 5)),
          (''roce'', PNum (421 / 10))])],
      [(''symbol'', PStr ''HDFCBANK''),
       (''basic_info'', PDict [(''name'', PStr ''HDFC Bank''),
          (''sector'', PStr ''Banking''), (''market_cap'', PNum 800000000000)]),
       (''price_data'', PDict [(''current_price'', PNum (6601 / 4))]),
       (''fundamental_data'', PDict [(''pe_ratio'', PNum (221 / 10)),
          (''pb_ratio'', PNum (16 / 5)), (''roe'', PNum (84 / 5)),
          (''roce'', PNum (37 / 2))])]]"

definition sector_filters :: pydict where
  "sector_filters =
     [(''sectors'', PList [PStr ''Technology'']),
      (''exclude_sectors'', PList [PStr ''Banking''])]"

definition range_filters :: pydict where
  "range_filters = [(''pe_ratio_min'', PNum 20), (''pe_ratio_max'', PNum 25)]"

section \<open>Properties of deduplication\<close>

lemma merge_securities_cases: "merge_securities e n = e \<or> merge_securities e n = n"
  by (simp add: merge_securities_def)

lemma merge_securities_key:
  "dedup_key e = k \<Longrightarrow> dedup_key n = k \<Longrightarrow> dedup_key (merge_securities e n) = k"
  using merge_securities_cases [of e n] by auto

lemma set_update_cases:
  "(k', v') \<in> set (AList.update k v al) \<Longrightarrow> (k' = k \<and> v' = v) \<or> (k', v') \<in> set al"
  by (induction al) (auto split: if_splits)

lemma length_update_le: "length (AList.update k v al) \<le> Suc (length al)"
  by (induction al) auto

lemma keyed_step: "keyed g \<Longrightarrow> keyed (dedup_step g s)"
proof -
  assume inv: "keyed g"
  have all: "\<And>v. dedup_key v = dedup_key s \<Longrightarrow>
      list_all (\<lambda>p. dedup_key (snd p) = fst p) (AList.update (dedup_key s) v g)"
    using inv unfolding keyed_def list_all_iff
    by (auto dest!: set_update_cases)
  show ?thesis
  proof (cases "map_of g (dedup_key s)")
    case None
    then show ?thesis using inv all [of s]
      by (simp add: keyed_def dedup_step_def distinct_update)
  next
    case (Some e)
    then have "(dedup_key s, e) \<in> set g" by (rule map_of_SomeD)
    then have "dedup_key e = dedup_key s"
      using inv unfolding keyed_def list_all_iff by auto
    then have "dedup_key (merge_securities e s) = dedup_key s"
      by (simp add: merge_securities_key)
    then show ?thesis using inv Some all [of "merge_securities e s"]
      by (simp add: keyed_def dedup_step_def distinct_update)
  qed
qed

lemma keyed_foldl: "keyed g \<Longrightarrow> keyed (foldl dedup_step g xs)"
  by (induction xs arbitrary: g) (simp_all add: keyed_step)

lemma keyed_grouped_of: "keyed (grouped_of xs)"
  unfolding grouped_of_def by (rule keyed_foldl) (simp add: keyed_def)

lemma length_step: "length (dedup_step g s) \<le> Suc (length g)"
  by (simp add: dedup_step_def length_update_le split: option.splits)

lemma length_foldl: "length (foldl dedup_step g xs) \<le> length g + length xs"
proof (induction xs arbitrary: g)
  case Nil
  then show ?case by simp
next
  case (Cons x xs)
  have "length (foldl dedup_step (dedup_step g x) xs) \<le> length (dedup_step g x) + length xs"
    by (rule Cons.IH)
  also have "\<dots> \<le> Suc (length g) + length xs"
    using length_step [of g x] by simp
  finally show ?case by simp
qed

lemma keys_step: "fst ` set (dedup_step g s) = insert (dedup_key s) (fst ` set g)"
  by (simp add: dedup_step_def dom_update split: option.splits)

lemma keys_foldl: "fst ` set (foldl dedup_step g xs) = fst ` set g \<union> dedup_key ` set xs"
  by (induction xs arbitrary: g) (auto simp: keys_step)

lemma vals_step: "snd ` set (dedup_step g s) \<subseteq> insert s (snd ` set g)"
proof
  fix v assume "v \<in> snd ` set (dedup_step g s)"
  then obtain k where kv: "(k, v) \<in> set (dedup_step g s)" by force
  show "v \<in> insert s (snd ` set g)"
  proof (cases "map_of g (dedup_key s)")
    case None
    with kv have "(k, v) \<in> set (AList.update (dedup_key s) s g)"
      by (simp add: dedup_step_def)
    then show ?thesis by (force dest!: set_update_cases)
  next
    case (Some e)
    then have e: "(dedup_key s, e) \<in> set g" by (rule map_of_SomeD)
    from Some kv have "(k, v) \<in> set (AList.update (dedup_key s) (merge_securities e s) g)"
      by (simp add: dedup_step_def)
    then have "v = merge_securities e s \<or> (k, v) \<in> set g"
      by (auto dest!: set_update_cases)
    then show ?thesis using merge_securities_cases [of e s] e by force
  qed
qed

lemma vals_foldl: "snd ` set (foldl dedup_step g xs) \<subseteq> snd ` set g \<union> set xs"
proof (induction xs arbitrary: g)
  case Nil
  then show ?case by simp
next
  case (Cons x xs)
  have "snd ` set (foldl dedup_step (dedup_step g x) xs) \<subseteq> snd ` set (dedup_step g x) \<union> set xs"
    by (rule Cons.IH)
  then show ?case using vals_step [of g x] by auto
qed

lemma keyed_keys: "keyed g \<Longrightarrow> map dedup_key (map snd g) = map fst g"
  by (induction g) (auto simp: keyed_def)

text \<open>
  C3 (as amended). The grouping key of the code is the isin when it is non-empty and
  otherwise the symbol exactly as given; no case folding takes place. With that key the
  output of \<open>_deduplicate_securities\<close> has pairwise distinct keys, is never longer than the
  input, represents every key of the input, and consists of input members only.
\<close>

theorem dedup_keys_distinct:
  "distinct (map dedup_key (deduplicate_securities xs)) \<and>
   length (deduplicate_securities xs) \<le> length xs \<and>
   set (map dedup_key (deduplicate_securities xs)) = set (map dedup_key xs) \<and>
   set (deduplicate_securities xs) \<subseteq> set xs"
proof -
  let ?g = "grouped_of xs"
  have k: "keyed ?g" by (rule keyed_grouped_of)
  then have m: "map dedup_key (map snd ?g) = map fst ?g" by (rule keyed_keys)
  have d: "distinct (map fst ?g)" using k by (simp add: keyed_def)
  have 1: "distinct (map dedup_key (deduplicate_securities xs))"
    unfolding deduplicate_securities_def m by (rule d)
  have 2: "length (deduplicate_securities xs) \<le> length xs"
    using length_foldl [of "[]" xs] by (simp add: deduplicate_securities_def grouped_of_def)
  have 3: "set (map dedup_key (deduplicate_securities xs)) = set (map dedup_key xs)"
    unfolding deduplicate_securities_def m
    using keys_foldl [of "[]" xs] by (simp add: grouped_of_def)
  have 4: "set (deduplicate_securities xs) \<subseteq> set xs"
    using vals_foldl [of "[]" xs] by (simp add: deduplicate_securities_def grouped_of_def)
  from 1 2 3 4 show ?thesis by blast
qed

text \<open>
  C3, the claim as stated, fails: two holdings without isin whose symbols are \<open>abc\<close> and
  \<open>ABC\<close> are both kept, and they share the identity key of the specification.
\<close>

theorem dedup_spec_key_counterexample:
  "deduplicate_securities
     [holding_of ''abc'' None ''MANUAL'' 1 5, holding_of ''ABC'' None ''MANUAL'' 1 7] =
     [holding_of ''abc'' None ''MANUAL'' 1 5, holding_of ''ABC'' None ''MANUAL'' 1 7] \<and>
   map spec_identity_key
     [holding_of ''abc'' None ''MANUAL'' 1 5, holding_of ''ABC'' None ''MANUAL'' 1 7] =
     [''ABC'', ''ABC''] \<and>
   \<not> distinct (map spec_identity_key (deduplicate_securities
     [holding_of ''abc'' None ''MANUAL'' 1 5, holding_of ''ABC'' None ''MANUAL'' 1 7]))"
  by code_simp

lemma map_of_dedup_step:
  "map_of (dedup_step g s) k = (if k = dedup_key s then absorb (map_of g k) s else map_of g k)"
  by (simp add: dedup_step_def absorb_def update_conv' split: option.splits)

lemma map_of_foldl_dedup:
  "map_of (foldl dedup_step g xs) k =
     foldl absorb (map_of g k) (filter (\<lambda>s. dedup_key s = k) xs)"
  by (induction xs arbitrary: g) (simp_all add: map_of_dedup_step)

lemma foldl_absorb_Some: "foldl absorb (Some e) ys = Some (foldl merge_securities e ys)"
  by (induction ys arbitrary: e) (simp_all add: absorb_def)

lemma foldl_absorb_None:
  "foldl absorb None zs = (case zs of [] \<Rightarrow> None | y # ys \<Rightarrow> Some (foldl merge_securities y ys))"
  by (cases zs) (simp_all add: absorb_def foldl_absorb_Some)

lemma merge_outranks:
  assumes "\<not> (priority (source n) < priority (source e) \<and> later (last_updated n) (last_updated e))"
  shows "merge_securities e n = (if outranks n e then n else e)"
  using assms by (auto simp: merge_securities_def outranks_def)

lemma outranks_trans_le:
  assumes "last_updated x \<noteq> None" "last_updated e \<noteq> None" "last_updated n \<noteq> None"
    and "\<not> outranks x e" "outranks n e"
  shows "\<not> outranks x n" "\<not> same_rank x n"
  using assms by (auto simp: outranks_def same_rank_def later_def split: option.splits)

lemma same_rank_iff:
  assumes "last_updated x \<noteq> None" "last_updated m \<noteq> None"
  shows "same_rank x m \<longleftrightarrow> \<not> outranks x m \<and> \<not> outranks m x"
  using assms by (auto simp: outranks_def same_rank_def later_def split: option.splits)

lemma same_rank_refl: "same_rank m m"
  by (simp add: same_rank_def)

lemma find_snoc:
  "List.find P (xs @ [n]) =
     (case List.find P xs of None \<Rightarrow> (if P n then Some n else None) | Some x \<Rightarrow> Some x)"
  by (induction xs) simp_all

lemma find_filter: "List.find P (filter Q xs) = List.find (\<lambda>x. Q x \<and> P x) xs"
  by (induction xs) simp_all

lemma outranks_irrefl: "\<not> outranks n n"
  by (simp add: outranks_def later_def split: option.splits)

lemma fold_merge_max:
  assumes "\<forall>a \<in> set (y # ys). last_updated a \<noteq> None"
    and "\<forall>a \<in> set (y # ys). \<forall>b \<in> set (y # ys).
           \<not> (priority (source a) < priority (source b) \<and> later (last_updated a) (last_updated b))"
  shows "foldl merge_securities y ys \<in> set (y # ys) \<and>
         (\<forall>x \<in> set (y # ys). \<not> outranks x (foldl merge_securities y ys)) \<and>
         List.find (\<lambda>x. same_rank x (foldl merge_securities y ys)) (y # ys) =
           Some (foldl merge_securities y ys)"
  using assms
proof (induction ys rule: rev_induct)
  case Nil
  then show ?case by (simp add: same_rank_refl outranks_irrefl)
next
  case (snoc n ys)
  let ?m = "foldl merge_securities y ys"
  have st: "\<forall>a \<in> set (y # ys). last_updated a \<noteq> None" using snoc.prems(1) by simp
  have nc: "\<forall>a \<in> set (y # ys). \<forall>b \<in> set (y # ys).
           \<not> (priority (source a) < priority (source b) \<and> later (last_updated a) (last_updated b))"
    using snoc.prems(2) by simp
  from snoc.IH [OF st nc] have m_in: "?m \<in> set (y # ys)"
    and m_max: "\<forall>x \<in> set (y # ys). \<not> outranks x ?m"
    and m_first: "List.find (\<lambda>x. same_rank x ?m) (y # ys) = Some ?m" by blast+
  have n_st: "last_updated n \<noteq> None" using snoc.prems(1) by simp
  have m_st: "last_updated ?m \<noteq> None" using m_in st by blast
  have mn: "?m \<in> set (y # ys @ [n])" using m_in by auto
  have nn: "n \<in> set (y # ys @ [n])" by simp
  have "\<not> (priority (source n) < priority (source ?m) \<and> later (last_updated n) (last_updated ?m))"
    using snoc.prems(2) nn mn by blast
  then have step: "merge_securities ?m n = (if outranks n ?m then n else ?m)"
    by (rule merge_outranks)
  show ?case
  proof (cases "outranks n ?m")
    case True
    have a: "\<forall>x \<in> set (y # ys). \<not> outranks x n \<and> \<not> same_rank x n"
      using outranks_trans_le [OF _ m_st n_st _ True] m_max st by blast
    have b: "\<not> outranks n n" by (rule outranks_irrefl)
    have none: "List.find (\<lambda>x. same_rank x n) (y # ys) = None"
      unfolding find_None_iff using a by blast
    have "List.find (\<lambda>x. same_rank x n) ((y # ys) @ [n]) = Some n"
      unfolding find_snoc by (simp only: none option.case same_rank_refl if_True)
    then show ?thesis using True step a b by (auto simp: same_rank_refl)
  next
    case False
    have "List.find (\<lambda>x. same_rank x ?m) ((y # ys) @ [n]) = Some ?m"
      unfolding find_snoc by (simp only: m_first option.case)
    then show ?thesis using False step m_in m_max by auto
  qed
qed

lemma survivor_char:
  assumes cf: "conflict_free xs" and sv: "map_of (grouped_of xs) k = Some m"
  shows "m \<in> set xs \<and> dedup_key m = k \<and>
         (\<forall>x \<in> set xs. dedup_key x = k \<longrightarrow> \<not> outranks x m) \<and>
         List.find (\<lambda>x. dedup_key x = k \<and> same_rank x m) xs = Some m"
proof -
  let ?grp = "filter (\<lambda>s. dedup_key s = k) xs"
  have "foldl absorb None ?grp = Some m"
    using sv by (simp add: grouped_of_def map_of_foldl_dedup)
  then obtain y ys where grp: "?grp = y # ys" and m: "m = foldl merge_securities y ys"
    by (auto simp: foldl_absorb_None split: list.splits)
  have sub: "set (y # ys) = {x \<in> set xs. dedup_key x = k}"
    using grp [symmetric] by auto
  have st: "\<forall>a \<in> set (y # ys). last_updated a \<noteq> None"
    using cf unfolding sub conflict_free_def by blast
  have nc: "\<forall>a \<in> set (y # ys). \<forall>b \<in> set (y # ys).
           \<not> (priority (source a) < priority (source b) \<and> later (last_updated a) (last_updated b))"
    using cf unfolding sub conflict_free_def by blast
  from fold_merge_max [OF st nc] have 1: "m \<in> set (y # ys)"
    and 2: "\<forall>x \<in> set (y # ys). \<not> outranks x m"
    and 3: "List.find (\<lambda>x. same_rank x m) (y # ys) = Some m"
    unfolding m by blast+
  have 4: "List.find (\<lambda>x. dedup_key x = k \<and> same_rank x m) xs = Some m"
    using 3 unfolding grp [symmetric] find_filter .
  from 1 2 4 show ?thesis unfolding sub by blast
qed

lemma survivor_None: "map_of (grouped_of xs) k = None \<longleftrightarrow> k \<notin> dedup_key ` set xs"
  using keys_foldl [of "[]" xs] by (simp add: grouped_of_def map_of_eq_None_iff)

lemma survivors_perm:
  assumes cf: "conflict_free xs" and tf: "tie_free xs" and eq: "set ys = set xs"
  shows "map_of (grouped_of ys) k = map_of (grouped_of xs) k"
proof (cases "map_of (grouped_of xs) k")
  case None
  then have "k \<notin> dedup_key ` set ys" unfolding survivor_None eq .
  then have "map_of (grouped_of ys) k = None" unfolding survivor_None .
  then show ?thesis using None by simp
next
  case (Some m)
  have "map_of (grouped_of ys) k \<noteq> None"
    using Some eq survivor_None [of xs k] survivor_None [of ys k] by simp
  then obtain m' where m': "map_of (grouped_of ys) k = Some m'" by blast
  have cf': "conflict_free ys" using cf unfolding conflict_free_def eq .
  from survivor_char [OF cf Some] have a: "m \<in> set xs" "dedup_key m = k"
    "\<forall>x \<in> set xs. dedup_key x = k \<longrightarrow> \<not> outranks x m" by blast+
  from survivor_char [OF cf' m'] have b: "m' \<in> set xs" "dedup_key m' = k"
    "\<forall>x \<in> set xs. dedup_key x = k \<longrightarrow> \<not> outranks x m'" unfolding eq by blast+
  have "\<not> outranks m' m" "\<not> outranks m m'" using a b by blast+
  moreover have "last_updated m \<noteq> None" "last_updated m' \<noteq> None"
    using cf a(1) b(1) unfolding conflict_free_def by blast+
  ultimately have "same_rank m' m" by (simp add: same_rank_iff)
  then have "m' = m" using tf a b unfolding tie_free_def by blast
  then show ?thesis using Some m' by simp
qed

lemma dedup_ran: "set (deduplicate_securities xs) = ran (map_of (grouped_of xs))"
  using keyed_grouped_of [of xs] by (simp add: deduplicate_securities_def keyed_def ran_distinct)

text \<open>
  Where priority and recency agree. On inputs where every member carries a timestamp and,
  within a group, no member has both a lower source priority and a later timestamp than
  another, the member
  that survives for a key is in the input, is outranked by no member of its group, and is
  the first-seen member among those with its (priority, last\_updated) pair. If moreover no
  two different members of a group tie on both components, then for every permutation of
  the input each key keeps the same survivor and the outputs hold the same members.
\<close>

lemma survivor_by_rank:
  assumes "conflict_free xs"
  shows "(\<forall>k m. map_of (grouped_of xs) k = Some m \<longrightarrow>
            m \<in> set xs \<and> dedup_key m = k \<and>
            (\<forall>x \<in> set xs. dedup_key x = k \<longrightarrow> \<not> outranks x m) \<and>
            List.find (\<lambda>x. dedup_key x = k \<and> same_rank x m) xs = Some m) \<and>
         (\<forall>ys. mset ys = mset xs \<and> tie_free xs \<longrightarrow>
            map_of (grouped_of ys) = map_of (grouped_of xs) \<and>
            set (deduplicate_securities ys) = set (deduplicate_securities xs))"
proof -
  have 1: "\<forall>k m. map_of (grouped_of xs) k = Some m \<longrightarrow>
            m \<in> set xs \<and> dedup_key m = k \<and>
            (\<forall>x \<in> set xs. dedup_key x = k \<longrightarrow> \<not> outranks x m) \<and>
            List.find (\<lambda>x. dedup_key x = k \<and> same_rank x m) xs = Some m"
    using survivor_char [OF assms] by blast
  have 2: "map_of (grouped_of ys) = map_of (grouped_of xs) \<and>
           set (deduplicate_securities ys) = set (deduplicate_securities xs)"
    if "mset ys = mset xs" "tie_free xs" for ys
  proof -
    have "set ys = set xs" using that(1) by (rule mset_eq_setD)
    then have "map_of (grouped_of ys) = map_of (grouped_of xs)"
      using survivors_perm [OF assms that(2)] by blast
    then show ?thesis by (simp add: dedup_ran)
  qed
  from 1 2 show ?thesis by blast
qed

text \<open>
  An instance: a manual entry, a later broker record of the same isin and a third
  holding; the broker record survives under either order.
\<close>

lemma survivor_by_rank_example:
  "conflict_free [ex_manual, ex_broker, ex_other] \<and>
   tie_free [ex_manual, ex_broker, ex_other] \<and>
   mset [ex_other, ex_broker, ex_manual] = mset [ex_manual, ex_broker, ex_other] \<and>
   map_of (grouped_of [ex_manual, ex_broker, ex_other]) ''INE009A01021'' = Some ex_broker \<and>
   set (deduplicate_securities [ex_other, ex_broker, ex_manual]) =
     set (deduplicate_securities [ex_manual, ex_broker, ex_other])"
proof -
  have cf: "conflict_free [ex_manual, ex_broker, ex_other]" by code_simp
  have tf: "tie_free [ex_manual, ex_broker, ex_other]" by code_simp
  have ms: "mset [ex_other, ex_broker, ex_manual] = mset [ex_manual, ex_broker, ex_other]"
    by (simp add: add_mset_commute)
  have sv: "map_of (grouped_of [ex_manual, ex_broker, ex_other]) ''INE009A01021'' = Some ex_broker"
    by code_simp
  from survivor_by_rank [OF cf] ms tf
  have "set (deduplicate_securities [ex_other, ex_broker, ex_manual]) =
     set (deduplicate_securities [ex_manual, ex_broker, ex_other])" by blast
  with cf tf ms sv show ?thesis by blast
qed


text \<open>
  The first-seen rule: two manual entries of one isin with the same timestamp and
  different quantities tie on both components, and the one that comes first in the input
  is kept.
\<close>

lemma first_seen_kept_on_tie:
  "mset [tie_b, tie_a] = mset [tie_a, tie_b] \<and>
   same_rank tie_a tie_b \<and>
   deduplicate_securities [tie_a, tie_b] = [tie_a] \<and>
   deduplicate_securities [tie_b, tie_a] = [tie_b] \<and>
   tie_a \<noteq> tie_b"
proof -
  have 1: "mset [tie_b, tie_a] = mset [tie_a, tie_b]" by (simp add: add_mset_commute)
  have 2: "same_rank tie_a tie_b" by code_simp
  have 3: "deduplicate_securities [tie_a, tie_b] = [tie_a]" by code_simp
  have 4: "deduplicate_securities [tie_b, tie_a] = [tie_b]" by code_simp
  have 5: "tie_a \<noteq> tie_b" by (simp add: tie_a_def tie_b_def holding_of_def)
  from 1 2 3 4 5 show ?thesis by blast
qed


text \<open>
  C1 does not hold of the code: the recency test of \<open>_merge_securities\<close> is not
  restricted to equal priorities. A broker record updated at time 1 followed by a manual
  entry of the same isin updated at time 2 is replaced by the manual entry.
\<close>

theorem merge_recency_beats_priority:
  "dedup_key ex_broker_old = dedup_key ex_manual_new \<and>
   priority (source ex_manual_new) < priority (source ex_broker_old) \<and>
   merge_securities ex_broker_old ex_manual_new = ex_manual_new \<and>
   deduplicate_securities [ex_broker_old, ex_manual_new] = [ex_manual_new]"
  by code_simp

text \<open>
  C2 does not hold of the code. A broker record updated at time 1 and a manual entry of the
  same isin updated at time 2 differ in both priority and timestamp, so no tie is involved;
  yet the survivor depends on the order of the input. With the broker record first the
  manual entry replaces it through the recency test of \<open>_merge_securities\<close>, which is not
  restricted to equal priorities; with the manual entry first the broker record replaces
  it through the priority test.
\<close>

theorem dedup_depends_on_order:
  "mset [ex_manual_new, ex_broker_old] = mset [ex_broker_old, ex_manual_new] \<and>
   dedup_key ex_broker_old = dedup_key ex_manual_new \<and>
   \<not> same_rank ex_broker_old ex_manual_new \<and>
   outranks ex_broker_old ex_manual_new \<and>
   deduplicate_securities [ex_broker_old, ex_manual_new] = [ex_manual_new] \<and>
   deduplicate_securities [ex_manual_new, ex_broker_old] = [ex_broker_old]"
proof -
  have 1: "mset [ex_manual_new, ex_broker_old] = mset [ex_broker_old, ex_manual_new]"
    by (simp add: add_mset_commute)
  have 2: "dedup_key ex_broker_old = dedup_key ex_manual_new" by code_simp
  have 3: "\<not> same_rank ex_broker_old ex_manual_new" by code_simp
  have 4: "outranks ex_broker_old ex_manual_new" by code_simp
  have 5: "deduplicate_securities [ex_broker_old, ex_manual_new] = [ex_manual_new]"
    by code_simp
  have 6: "deduplicate_securities [ex_manual_new, ex_broker_old] = [ex_broker_old]"
    by code_simp
  from 1 2 3 4 5 6 show ?thesis by blast
qed

section \<open>Properties of the converters\<close>

lemma float_field_None:
  "float_field parse f = None \<longleftrightarrow> (\<exists>v e. f = Some v \<and> py_float parse v = Inl e)"
  by (cases f) (auto simp: float_field_def get_or_def split: sum.splits)

lemma float_field_Some:
  "float_field parse f = Some x \<Longrightarrow> number_of parse f = x"
  by (cases f) (auto simp: float_field_def get_or_def number_of_def split: sum.splits)

lemma float_rejects_iff:
  "float_rejects parse item \<longleftrightarrow>
     float_field parse (raw_quantity item) = None \<or>
     float_field parse (raw_avg_price item) = None \<or>
     float_field parse (raw_current_price item) = None \<or>
     float_field parse (raw_market_value item) = None \<or>
     float_field parse (raw_pnl item) = None \<or>
     float_field parse (raw_pnl_percentage item) = None"
  unfolding float_field_None float_rejects_def provided_numbers_def
  by (auto simp: List.map_filter_simps split: option.splits)

lemma convert_with_char:
  "convert_with tag parse now item =
     (if float_rejects parse item then None else Some (normalized tag parse now item))"
proof (cases "float_rejects parse item")
  case True
  then show ?thesis unfolding float_rejects_iff
    by (auto simp: convert_with_def Option.bind_eq_None_conv split: Option.bind_splits)
next
  case False
  then obtain q a c m p pp where v:
    "float_field parse (raw_quantity item) = Some q"
    "float_field parse (raw_avg_price item) = Some a"
    "float_field parse (raw_current_price item) = Some c"
    "float_field parse (raw_market_value item) = Some m"
    "float_field parse (raw_pnl item) = Some p"
    "float_field parse (raw_pnl_percentage item) = Some pp"
    unfolding float_rejects_iff by auto
  show ?thesis using False v float_field_Some [OF v(1)] float_field_Some [OF v(2)]
      float_field_Some [OF v(3)] float_field_Some [OF v(4)] float_field_Some [OF v(5)]
      float_field_Some [OF v(6)]
    by (simp add: convert_with_def normalized_def post_init_def get_or_def)
qed

text \<open>
  C4 (as amended). Each converter returns no Security exactly when \<open>float\<close> raises on a
  numeric field that the record provides. Otherwise it succeeds, whatever else is missing:
  an absent symbol or name becomes the empty string, an absent isin stays \<open>None\<close>, every
  absent numeric field (quantity included) becomes 0, an absent security type becomes
  \<open>STOCK\<close>, and \<open>last_updated\<close> is the time of the call.
\<close>

theorem convert_fails_iff_float_rejects:
  "convert_fyers_to_security parse now item =
     (if float_rejects parse item then None else Some (normalized ''FYERS'' parse now item)) \<and>
   convert_cas_to_security parse now item =
     (if float_rejects parse item then None else Some (normalized ''CAS'' parse now item)) \<and>
   convert_manual_to_security parse now item =
     (if float_rejects parse item then None else Some (normalized ''MANUAL'' parse now item))"
  by (simp only: convert_fyers_to_security_def convert_cas_to_security_def
      convert_manual_to_security_def convert_with_char)

text \<open>
  C4, the claim as stated, fails both ways: the empty record, which provides no symbol, no
  isin and no quantity, converts to a holding with the empty symbol and quantity 0; and a
  record with symbol and quantity whose \<open>avg_price\<close> is \<open>null\<close> is rejected instead of
  getting the default 0.
\<close>

theorem convert_missing_field_counterexample:
  "spec_missing_field raw_empty \<and>
   (\<forall>parse now. convert_manual_to_security parse now raw_empty =
      Some (holding_of '''' None ''MANUAL'' now 0)) \<and>
   \<not> spec_missing_field raw_null_price \<and>
   (\<forall>parse now. convert_manual_to_security parse now raw_null_price = None)"
proof -
  have 1: "spec_missing_field raw_empty" by (simp add: spec_missing_field_def raw_empty_def)
  have 2: "convert_manual_to_security parse now raw_empty =
      Some (holding_of '''' None ''MANUAL'' now 0)" for parse now
    by (simp add: convert_manual_to_security_def convert_with_def float_field_def get_or_def
        raw_empty_def post_init_def holding_of_def)
  have 3: "\<not> spec_missing_field raw_null_price"
    by (simp add: spec_missing_field_def raw_null_price_def)
  have 4: "convert_manual_to_security parse now raw_null_price = None" for parse now
    by (simp add: convert_manual_to_security_def convert_with_def float_field_def get_or_def
        raw_null_price_def)
  from 1 2 3 4 show ?thesis by blast
qed

section \<open>Properties of the price refresh\<close>














text \<open>
  C9 does not hold of the code. For a holding with quantity 0 and a positive average price
  the division raises, but the three assignments before it have already changed the dict:
  the handler keeps a holding that carries the fetched price, a current value of 0 and a
  pnl of 0; only \<open>pnl_percentage\<close> and \<open>last_updated\<close> keep their previous values.
\<close>

theorem zero_quantity_partial_update:
  "reprice ''t1'' 120 sold_out = (sold_out_after, Some ZeroDivisionError) \<and>
   refresh_holding env_up sold_out ([], 0, 0) = Inr ([sold_out_after], 0, 0) \<and>
   map_of sold_out ''current_price'' = Some (PNum 90) \<and>
   map_of sold_out_after ''current_price'' = Some (PNum 120) \<and>
   map_of sold_out ''current_value'' = Some (PNum 450) \<and>
   map_of sold_out_after ''current_value'' = Some (PNum 0)"
  by code_simp

section \<open>Properties of the batch refresh\<close>

lemma update_portfolio_None:
  assumes "map_of db u \<noteq> None"
  shows "map_of (update_portfolio e db u doc) u' = None \<longleftrightarrow> map_of db u' = None"
  using assms by (auto simp: update_portfolio_def update_conv')

lemma refresh_prices_None:
  assumes "map_of db u \<noteq> None"
  shows "map_of (snd (refresh_portfolio_prices e db u p m)) u' = None \<longleftrightarrow> map_of db u' = None"
  using update_portfolio_None [OF assms]
  by (auto simp: refresh_portfolio_prices_def split: sum.splits prod.splits)

lemma lookup_None_step:
  assumes "get_user_portfolio e db u = Some p"
  shows "get_user_portfolio e (snd (refresh_portfolio_prices e db u p m)) u' = None \<longleftrightarrow>
         get_user_portfolio e db u' = None"
proof -
  have "map_of db u \<noteq> None" using assms by (auto simp: get_user_portfolio_def split: if_splits)
  from refresh_prices_None [OF this] show ?thesis by (simp add: get_user_portfolio_def)
qed


lemma found_cong:
  assumes "\<And>u'. get_user_portfolio e db' u' = None \<longleftrightarrow> get_user_portfolio e db u' = None"
  shows "found e db' us = found e db us"
  unfolding found_def using assms by (intro filter_cong) auto

lemma refresh_users_counts:
  "total_users (snd (refresh_users e us (db, r))) = total_users r \<and>
   successful (snd (refresh_users e us (db, r))) + failed (snd (refresh_users e us (db, r))) =
     successful r + failed r + length (found e db us) \<and>
   length (errors (snd (refresh_users e us (db, r)))) + failed r =
     length (errors r) + failed (snd (refresh_users e us (db, r))) \<and>
   fst ` set (errors (snd (refresh_users e us (db, r)))) \<subseteq>
     fst ` set (errors r) \<union> set (found e db us)"
proof (induction us arbitrary: db r)
  case Nil
  then show ?case by (simp add: found_def)
next
  case (Cons u us)
  show ?case
  proof (cases "get_user_portfolio e db u")
    case None
    then have "found e db (u # us) = found e db us" by (simp add: found_def)
    then show ?thesis using None Cons.IH [of db r] by simp
  next
    case (Some p)
    obtain res db' where rp: "refresh_portfolio_prices e db u p False = (res, db')"
      by (cases "refresh_portfolio_prices e db u p False")
    have "\<And>u'. get_user_portfolio e db' u' = None \<longleftrightarrow> get_user_portfolio e db u' = None"
      using lookup_None_step [OF Some, of False] rp by simp
    then have fc: "found e db' us = found e db us" by (rule found_cong)
    have fu: "found e db (u # us) = u # found e db us" using Some by (simp add: found_def)
    show ?thesis
    proof (cases res)
      case (Refreshed n tv tp t)
      then show ?thesis
        using Some rp fc fu Cons.IH [of db' "r\<lparr>successful := successful r + 1\<rparr>"]
        by auto
    next
      case (RefreshError err)
      then show ?thesis
        using Some rp fc fu
          Cons.IH [of db' "r\<lparr>failed := failed r + 1, errors := errors r @ [(u, err)]\<rparr>"]
        by auto
    qed
  qed
qed

text \<open>
  C10. In the result of \<open>refresh_all_portfolios\<close>, \<open>total_users\<close> is the number of
  enumerated users, and \<open>successful + failed\<close> is the number of those whose lookup returns
  a document. So \<open>successful + failed \<le> total_users\<close>, strictly less exactly when the
  lookup of some enumerated user returns no document; the errors list has one entry per
  failed user, and none for a user whose lookup returns no document.
\<close>

theorem refresh_all_counts:
  "total_users (snd (refresh_all_portfolios e db)) =
     length (get_all_users_with_portfolios e db) \<and>
   successful (snd (refresh_all_portfolios e db)) + failed (snd (refresh_all_portfolios e db)) =
     length (filter (\<lambda>u. get_user_portfolio e db u \<noteq> None)
       (get_all_users_with_portfolios e db)) \<and>
   successful (snd (refresh_all_portfolios e db)) + failed (snd (refresh_all_portfolios e db))
     \<le> total_users (snd (refresh_all_portfolios e db)) \<and>
   (successful (snd (refresh_all_portfolios e db)) + failed (snd (refresh_all_portfolios e db))
      < total_users (snd (refresh_all_portfolios e db)) \<longleftrightarrow>
    (\<exists>u \<in> set (get_all_users_with_portfolios e db). get_user_portfolio e db u = None)) \<and>
   length (errors (snd (refresh_all_portfolios e db))) =
     failed (snd (refresh_all_portfolios e db)) \<and>
   fst ` set (errors (snd (refresh_all_portfolios e db))) \<subseteq>
     {u \<in> set (get_all_users_with_portfolios e db). get_user_portfolio e db u \<noteq> None}"
proof -
  let ?us = "get_all_users_with_portfolios e db"
  let ?init = "\<lparr>total_users = length ?us, successful = 0, failed = 0, errors = []\<rparr>"
  let ?r = "snd (refresh_all_portfolios e db)"
  have r: "?r = snd (refresh_users e ?us (db, ?init))" by (simp add: refresh_all_portfolios_def)
  from refresh_users_counts [of e ?us db ?init]
  have 1: "total_users ?r = length ?us"
    and 2: "successful ?r + failed ?r = length (found e db ?us)"
    and 3: "length (errors ?r) = failed ?r"
    and 4: "fst ` set (errors ?r) \<subseteq> set (found e db ?us)"
    unfolding r by simp_all
  have 5: "length (found e db ?us) \<le> length ?us" by (simp add: found_def)
  have 6: "length (found e db ?us) < length ?us \<longleftrightarrow>
      (\<exists>u \<in> set ?us. get_user_portfolio e db u = None)"
  proof
    assume "length (found e db ?us) < length ?us"
    then have "found e db ?us \<noteq> ?us" by auto
    then have "\<not> (\<forall>u \<in> set ?us. get_user_portfolio e db u \<noteq> None)"
      unfolding found_def filter_id_conv .
    then show "\<exists>u \<in> set ?us. get_user_portfolio e db u = None" by simp
  next
    assume "\<exists>u \<in> set ?us. get_user_portfolio e db u = None"
    then show "length (found e db ?us) < length ?us"
      unfolding found_def by (auto intro: length_filter_less)
  qed
  show ?thesis using 1 2 3 4 5 6 unfolding found_def by auto
qed

text \<open>An instance: two stored users, the lookup of the second raises.\<close>

lemma refresh_all_missing_lookup_example:
  "snd (refresh_all_portfolios env_no_read [(''u1'', doc_of [held]), (''u2'', doc_of [unpriced])]) =
     \<lparr>total_users = 2, successful = 1, failed = 0, errors = []\<rparr>"
  by code_simp

section \<open>Properties of the screening evaluator\<close>

lemma py_lt_at_least: "py_lt v t = Inr False \<longleftrightarrow> at_least v t"
  by (cases v; cases t) auto

lemma check_ops_step:
  "caught (check_ops v ((operator, threshold) # rest)) =
     (op_holds operator v threshold \<and> caught (check_ops v rest))"
  by (auto simp: caught_def op_holds_def py_lt_at_least [symmetric] split: sum.splits)

lemma check_ops_holds:
  "caught (check_ops v condition) = list_all (\<lambda>c. op_holds (fst c) v (snd c)) condition"
proof (induction condition)
  case Nil
  then show ?case by (simp add: caught_def)
next
  case (Cons c rest)
  obtain operator threshold where c: "c = (operator, threshold)" by (cases c)
  show ?case unfolding c check_ops_step using Cons.IH by simp
qed

lemma navigate_resolve:
  "(case navigate v keys of Inl e \<Rightarrow> None | Inr r \<Rightarrow> r) = resolve_path v keys"
proof (induction keys arbitrary: v)
  case Nil
  then show ?case by simp
next
  case (Cons key keys)
  show ?case
  proof (cases v)
    case (PDict kvs)
    show ?thesis
    proof (cases "map_of kvs key")
      case None
      then have "key \<notin> fst ` set kvs" by (simp add: map_of_eq_None_iff)
      then show ?thesis using None PDict by simp
    next
      case (Some v')
      then have "(key, v') \<in> set kvs" by (rule map_of_SomeD)
      then have "key \<in> fst ` set kvs" by force
      then show ?thesis using Some PDict Cons.IH [of v'] by simp
    qed
  qed simp_all
qed

lemma check_field_condition_satisfied:
  "check_field_condition item field condition = path_satisfied item field condition"
proof (cases "navigate (PDict item) (split_dot field)")
  case (Inl e)
  then have "path_value item field = None"
    using navigate_resolve [of "PDict item" "split_dot field"] by (simp add: path_value_def)
  then show ?thesis using Inl by (simp add: check_field_condition_def path_satisfied_def)
next
  case (Inr r)
  then have pv: "path_value item field = r"
    using navigate_resolve [of "PDict item" "split_dot field"] by (simp add: path_value_def)
  show ?thesis
  proof (cases r)
    case None
    then show ?thesis using Inr pv by (simp add: check_field_condition_def path_satisfied_def)
  next
    case (Some v)
    then show ?thesis using Inr pv
      by (simp add: check_field_condition_def path_satisfied_def check_ops_holds)
  qed
qed

lemma apply_stock_filters_matches: "apply_stock_filters stock query = matches stock query"
  by (induction stock query rule: apply_stock_filters.induct)
     (simp_all add: matches_def check_field_condition_satisfied)

text \<open>
  C8. A record passes \<open>_check_field_condition\<close> exactly when the filtered path is present
  in it and every condition on the path holds; a path that is missing, or that runs through
  a value that is not a record, gives \<open>False\<close> and never an exception. A record passes
  \<open>_apply_stock_filters\<close> exactly when it satisfies every path of the query, a query
  without filters accepts every record, and the filtered result consists of the records of
  the catalog that satisfy every path, in catalog order.
\<close>

theorem filter_matches_every_path:
  "check_field_condition stock field condition = path_satisfied stock field condition \<and>
   apply_stock_filters stock query = matches stock query \<and>
   apply_stock_filters stock [] \<and>
   execute_screening catalog query = filter (\<lambda>s. matches s query) catalog"
  by (simp add: check_field_condition_satisfied apply_stock_filters_matches
      execute_screening_def matches_def)

text \<open>Present and missing paths on the first record of the mock catalog.\<close>

lemma missing_path_examples:
  "path_value (hd mock_stocks) ''fundamental_data.pe_ratio'' = Some (PNum (37 / 2)) \<and>
   path_value (hd mock_stocks) ''fundamental_data.peg'' = None \<and>
   path_value (hd mock_stocks) ''symbol.pe_ratio'' = None \<and>
   \<not> check_field_condition (hd mock_stocks) ''symbol.pe_ratio'' [(''$lte'', PNum 20)] \<and>
   check_field_condition (hd mock_stocks) ''fundamental_data.pe_ratio'' [(''$lte'', PNum 20)]"
  by code_simp

text \<open>
  C7 does not hold of the code. For a request with both \<open>sectors\<close> and
  \<open>exclude_sectors\<close> the adapter assigns the path \<open>basic_info.sector\<close> twice, and the
  second assignment replaces the \<open>$in\<close> condition by the \<open>$nin\<close> condition. The record
  of sector \<open>Oil & Gas\<close> is then accepted although it is not in the requested sectors.
\<close>

theorem exclude_sectors_drops_sectors:
  "build_screening_query sector_filters =
     [(''basic_info.sector'', [(''$nin'', PList [PStr ''Banking''])])] \<and>
   map (\<lambda>s. map_of s ''symbol'')
       (execute_screening mock_stocks (build_screening_query sector_filters)) =
     [Some (PStr ''RELIANCE''), Some (PStr ''TCS'')] \<and>
   path_value (hd mock_stocks) ''basic_info.sector'' = Some (PStr ''Oil & Gas'') \<and>
   \<not> op_holds ''$in'' (PStr ''Oil & Gas'') (PList [PStr ''Technology''])"
  by code_simp

text \<open>The range filters do compose: both bounds are kept on the one path.\<close>

lemma range_is_conjunction:
  "build_screening_query range_filters =
     [(''fundamental_data.pe_ratio'', [(''$gte'', PNum 20), (''$lte'', PNum 25)])] \<and>
   map (\<lambda>s. map_of s ''symbol'')
       (execute_screening mock_stocks (build_screening_query range_filters)) =
     [Some (PStr ''HDFCBANK'')]"
  by code_simp

end
